theory Spec2Isabelle
  imports
    Complex_Main
    "HOL-Library.Multiset"
    "HOL-Library.Product_Lexorder"
    "HOL-Library.List_Lexorder"
    "HOL-Library.Char_ord"
begin

section \<open>Text constants of the application\<close>

text \<open>
  Python strings are modelled as \<^typ>\<open>string\<close> holding the UTF-8 bytes of the text.
  The builders only compare strings for equality and concatenate them, and both commute
  with the encoding. The Cyrillic literals of \<^verbatim>\<open>app.py\<close> are therefore byte lists:
  the date header, the two keys of \<^verbatim>\<open>NATIVE_FREQ_LOCK\<close> and the two method labels.
\<close>

definition hdr_date :: string where
  "hdr_date = [CHR 0xD0, CHR 0x94, CHR 0xD0, CHR 0xB0, CHR 0xD1, CHR 0x82, CHR 0xD0, CHR 0xB0]"

definition lock_inflation :: string where
  "lock_inflation =
     [CHR 0xD0, CHR 0x98, CHR 0xD0, CHR 0xBD, CHR 0xD1, CHR 0x84, CHR 0xD0, CHR 0xBB,
      CHR 0xD1, CHR 0x8F, CHR 0xD1, CHR 0x86, CHR 0xD0, CHR 0xB8, CHR 0xD1, CHR 0x8F,
      CHR 0x2C, CHR 0x20, CHR 0x25, CHR 0x20, CHR 0xD0, CHR 0xBC, CHR 0x2F, CHR 0xD0,
      CHR 0xBC]"

definition lock_gdp :: string where
  "lock_gdp =
     [CHR 0xD0, CHR 0x92, CHR 0xD0, CHR 0x92, CHR 0xD0, CHR 0x9F, CHR 0x2C, CHR 0x20,
      CHR 0x25, CHR 0x20, CHR 0xD0, CHR 0xB3, CHR 0x2F, CHR 0xD0, CHR 0xB3]"

definition txt_avg :: string where
  "txt_avg =
     [CHR 0xD0, CHR 0xB2, CHR 0x20, CHR 0xD1, CHR 0x81, CHR 0xD1, CHR 0x80, CHR 0xD0,
      CHR 0xB5, CHR 0xD0, CHR 0xB4, CHR 0xD0, CHR 0xBD, CHR 0xD0, CHR 0xB5, CHR 0xD0,
      CHR 0xBC, CHR 0x20, CHR 0xD0, CHR 0xB7, CHR 0xD0, CHR 0xB0, CHR 0x20, CHR 0xD0,
      CHR 0xBF, CHR 0xD0, CHR 0xB5, CHR 0xD1, CHR 0x80, CHR 0xD0, CHR 0xB8, CHR 0xD0,
      CHR 0xBE, CHR 0xD0, CHR 0xB4]"

definition txt_eop :: string where
  "txt_eop =
     [CHR 0xD0, CHR 0xBD, CHR 0xD0, CHR 0xB0, CHR 0x20, CHR 0xD0, CHR 0xBA, CHR 0xD0,
      CHR 0xBE, CHR 0xD0, CHR 0xBD, CHR 0xD0, CHR 0xB5, CHR 0xD1, CHR 0x86, CHR 0x20,
      CHR 0xD0, CHR 0xBF, CHR 0xD0, CHR 0xB5, CHR 0xD1, CHR 0x80, CHR 0xD0, CHR 0xB8,
      CHR 0xD0, CHR 0xBE, CHR 0xD0, CHR 0xB4, CHR 0xD0, CHR 0xB0]"

section \<open>Calendar dates and reporting periods\<close>

text \<open>
  The \<^verbatim>\<open>Date\<close> column holds calendar dates: a date is (year, month, day), and the
  lexicographic order of the triple is the chronological order. The type also holds
  triples that are no date (month 13); \<open>valid_date\<close> says which ones a timestamp can be.
\<close>

type_synonym date = "nat \<times> nat \<times> nat"

definition is_leap :: "nat \<Rightarrow> bool" where
  "is_leap y = ((y mod 4 = 0 \<and> y mod 100 \<noteq> 0) \<or> y mod 400 = 0)"

definition days_in_month :: "nat \<Rightarrow> nat \<Rightarrow> nat" where
  "days_in_month y m =
     (if m = 2 then (if is_leap y then 29 else 28)
      else if m = 4 \<or> m = 6 \<or> m = 9 \<or> m = 11 then 30 else 31)"

fun valid_date :: "date \<Rightarrow> bool" where
  "valid_date (y, m, d) = (1 \<le> m \<and> m \<le> 12 \<and> 1 \<le> d \<and> d \<le> days_in_month y m)"

text \<open>
  \<^verbatim>\<open>FREQ_RULE\<close> names three pandas offsets: \<^verbatim>\<open>"M"\<close> (month end), \<^verbatim>\<open>"Q"\<close>
  (quarter end, quarters closing in March, June, September and December) and
  \<^verbatim>\<open>"A-DEC"\<close> (year end in December). A period is numbered by \<open>period_index\<close>;
  pandas labels it with its last day (\<open>period_end\<close>).
\<close>

datatype offset = MonthEnd | QuarterEnd | YearEnd

fun period_index :: "offset \<Rightarrow> date \<Rightarrow> nat" where
  "period_index MonthEnd (y, m, d) = y * 12 + (m - 1)"
| "period_index QuarterEnd (y, m, d) = y * 4 + (m - 1) div 3"
| "period_index YearEnd (y, m, d) = y"

fun period_end :: "offset \<Rightarrow> nat \<Rightarrow> date" where
  "period_end MonthEnd p = (p div 12, p mod 12 + 1, days_in_month (p div 12) (p mod 12 + 1))"
| "period_end QuarterEnd p =
     (p div 4, 3 * (p mod 4) + 3, days_in_month (p div 4) (3 * (p mod 4) + 3))"
| "period_end YearEnd p = (p, 12, 31)"

text \<open>
  The calendar bounds of a period, read off its label: the period that ends on the
  label starts on the first day of that month, of the month two before, or of January.
\<close>

fun period_start :: "offset \<Rightarrow> date \<Rightarrow> date" where
  "period_start MonthEnd (y, m, d) = (y, m, 1)"
| "period_start QuarterEnd (y, m, d) = (y, m - 2, 1)"
| "period_start YearEnd (y, m, d) = (y, 1, 1)"

definition within_period :: "offset \<Rightarrow> date \<Rightarrow> date \<Rightarrow> bool" where
  "within_period rule label d = (period_start rule label \<le> d \<and> d \<le> label)"

section \<open>The dataset\<close>

text \<open>
  One observation row after loading. \<open>Value\<close> is a number or missing (\<open>None\<close> is NaN);
  numbers are exact rationals, so the mean below is the exact arithmetic mean.
  \<open>Unit\<close> is text or missing. A data frame is the list of its rows in order.
\<close>

record row =
  Date :: date
  Name :: string
  Alias :: string
  Value :: "rat option"
  Unit :: "string option"
  Freq :: string
  Method :: string

type_synonym frame = "row list"

type_synonym series = "(date \<times> rat option) list"

definition NATIVE_FREQ_LOCK :: "string \<rightharpoonup> string" where
  "NATIVE_FREQ_LOCK = map_of [(lock_inflation, ''M''), (lock_gdp, ''A'')]"

definition FREQ_RULE :: "string \<rightharpoonup> offset" where
  "FREQ_RULE = map_of [(''M'', MonthEnd), (''Q'', QuarterEnd), (''A'', YearEnd)]"

section \<open>Formatting\<close>

fun dec :: "nat \<Rightarrow> string" where
  "dec n = (if n < 10 then [char_of (48 + n)] else dec (n div 10) @ [char_of (48 + n mod 10)])"

declare dec.simps [simp del]

definition pad :: "nat \<Rightarrow> nat \<Rightarrow> string" where
  "pad w n = replicate (w - length (dec n)) CHR ''0'' @ dec n"

text \<open>\<^verbatim>\<open>dt.strftime("%d.%m.%Y")\<close> and \<^verbatim>\<open>strftime("%Y-%m-%d")\<close>.\<close>

fun format_date :: "date \<Rightarrow> string" where
  "format_date (y, m, d) = pad 2 d @ ''.'' @ pad 2 m @ ''.'' @ pad 4 y"

fun iso_date :: "date \<Rightarrow> string" where
  "iso_date (y, m, d) = pad 4 y @ ''-'' @ pad 2 m @ ''-'' @ pad 2 d"

definition round_half_even :: "rat \<Rightarrow> int" where
  "round_half_even x =
     (let n = \<lfloor>x\<rfloor>; f = x - of_int n
      in if 1 / 2 < f \<or> (f = 1 / 2 \<and> odd n) then n + 1 else n)"

text \<open>
  \<^verbatim>\<open>f"{x:.kf}"\<close>: the sign, then the magnitude rounded to \<open>k\<close> decimals (ties to
  even), with at least one digit before the point.
\<close>

definition fmt_fixed :: "nat \<Rightarrow> rat \<Rightarrow> string" where
  "fmt_fixed k x =
     (let ds = pad (Suc k) (nat (round_half_even (\<bar>x\<bar> * 10 ^ k)))
      in (if x < 0 then ''-'' else '''') @
         take (length ds - k) ds @ ''.'' @ drop (length ds - k) ds)"

definition round_val :: "rat option \<Rightarrow> string" where
  "round_val v =
     (case v of None \<Rightarrow> ''''
      | Some x \<Rightarrow> if 1 \<le> \<bar>x\<bar> then fmt_fixed 1 x else fmt_fixed 2 x)"

section \<open>Selection helpers\<close>

definition select_alias :: "frame \<Rightarrow> string \<Rightarrow> frame" where
  "select_alias df alias = filter (\<lambda>r. Alias r = alias) df"

text \<open>
  \<^verbatim>\<open>_alias_unit_method\<close>: the first component is read from the \<^verbatim>\<open>Alias\<close> column of the
  first selected row, the unit is the first non-missing \<^verbatim>\<open>Unit\<close>, the method that of
  the first row.
\<close>

definition alias_unit_method :: "frame \<Rightarrow> string \<Rightarrow> string \<times> string \<times> string" where
  "alias_unit_method df alias =
     (let sub = select_alias df alias
      in if sub = [] then (alias, '''', ''avg'')
         else (Alias (hd sub),
               (case List.map_filter Unit sub of [] \<Rightarrow> '''' | u # _ \<Rightarrow> u),
               Method (hd sub)))"

definition native_freq :: "frame \<Rightarrow> string \<Rightarrow> string" where
  "native_freq df alias =
     (let sub = select_alias df alias in if sub = [] then ''M'' else Freq (hd sub))"

section \<open>Resampling\<close>

text \<open>
  \<^verbatim>\<open>s.resample(rule)\<close> on a series sorted by date: one bin for every period from the
  period of the first date to the period of the last date, empty periods included,
  each labelled with its last day; an empty series gives an empty result.
  \<^verbatim>\<open>.mean()\<close> is the mean of the non-missing values of a bin and \<^verbatim>\<open>.last()\<close> its last
  non-missing value; both are missing when the bin holds no non-missing value.
\<close>

definition present :: "rat option list \<Rightarrow> rat list" where
  "present vs = List.map_filter (\<lambda>v. v) vs"

definition agg_mean :: "rat option list \<Rightarrow> rat option" where
  "agg_mean vs =
     (let xs = present vs
      in if xs = [] then None else Some (sum_list xs / of_nat (length xs)))"

definition agg_last :: "rat option list \<Rightarrow> rat option" where
  "agg_last vs = (let xs = present vs in if xs = [] then None else Some (last xs))"

definition resample :: "offset \<Rightarrow> (rat option list \<Rightarrow> rat option) \<Rightarrow> series \<Rightarrow> series" where
  "resample rule agg s =
     (if s = [] then []
      else map (\<lambda>p. (period_end rule p,
                      agg (map snd (filter (\<lambda>e. period_index rule (fst e) = p) s))))
               [period_index rule (fst (hd s)) ..< Suc (period_index rule (fst (last s)))])"

definition resample_series :: "series \<Rightarrow> string \<Rightarrow> string \<Rightarrow> series" where
  "resample_series s freq method =
     (let rule = (case FREQ_RULE freq of Some r \<Rightarrow> r | None \<Rightarrow> MonthEnd)
      in if method = ''eop'' then resample rule agg_last s else resample rule agg_mean s)"

section \<open>The date filter\<close>

text \<open>
  What \<^verbatim>\<open>pd.to_datetime\<close> makes of a request string is a parameter of the model: it
  raises, or returns the missing timestamp \<^verbatim>\<open>NaT\<close>, a plain date, or a date with a time
  zone. Comparing the \<^verbatim>\<open>Date\<close> column with \<^verbatim>\<open>NaT\<close> is false on every row; comparing
  it with a zoned timestamp raises, which the \<^verbatim>\<open>except\<close> clause swallows like a parse
  error.
\<close>

datatype parsed = Raises | NaT | Naive date | Aware date

definition filter_from :: "(string \<Rightarrow> parsed) \<Rightarrow> series \<Rightarrow> string option \<Rightarrow> series" where
  "filter_from to_datetime s dfrom =
     (case dfrom of None \<Rightarrow> s
      | Some t \<Rightarrow>
          if t = [] then s
          else (case to_datetime t of
                  Naive a \<Rightarrow> filter (\<lambda>e. a \<le> fst e) s
                | NaT \<Rightarrow> []
                | Raises \<Rightarrow> s
                | Aware a \<Rightarrow> s))"

definition filter_to :: "(string \<Rightarrow> parsed) \<Rightarrow> series \<Rightarrow> string option \<Rightarrow> series" where
  "filter_to to_datetime s dto =
     (case dto of None \<Rightarrow> s
      | Some t \<Rightarrow>
          if t = [] then s
          else (case to_datetime t of
                  Naive b \<Rightarrow> filter (\<lambda>e. fst e \<le> b) s
                | NaT \<Rightarrow> []
                | Raises \<Rightarrow> s
                | Aware b \<Rightarrow> s))"

definition apply_period_filter ::
  "(string \<Rightarrow> parsed) \<Rightarrow> series \<Rightarrow> string option \<Rightarrow> string option \<Rightarrow> series" where
  "apply_period_filter to_datetime s dfrom dto =
     filter_to to_datetime (filter_from to_datetime s dfrom) dto"

section \<open>The builders\<close>

text \<open>
  \<^verbatim>\<open>_build_table\<close> and \<^verbatim>\<open>_build_series\<close>: select the rows of the alias, return the empty
  result when there is none, take the native frequency from the first row, let the lock
  table override the requested view frequency, build the date-indexed series (the rows
  sorted by date, rows of equal date in their order), resample when the frequency in use
  differs from the native one, filter by the date bounds, format.
\<close>

definition build_table ::
  "(string \<Rightarrow> parsed) \<Rightarrow> frame \<Rightarrow> string \<Rightarrow> string \<Rightarrow> string option \<Rightarrow> string option
     \<Rightarrow> string list \<times> string list list \<times> nat \<times> string" where
  "build_table to_datetime df alias freq_view dfrom dto =
     (let sub = select_alias df alias
      in if sub = [] then ([hdr_date, alias], [], 0, ''M'')
         else
           let native = Freq (hd sub);
               freq_use =
                 (case NATIVE_FREQ_LOCK alias of
                    Some locked \<Rightarrow>
                      if locked \<noteq> [] then locked
                      else if freq_view = ''AUTO'' then native else freq_view
                  | None \<Rightarrow> if freq_view = ''AUTO'' then native else freq_view);
               (name, unit, method) = alias_unit_method df alias;
               s0 = sort_key fst (map (\<lambda>r. (Date r, Value r)) sub);
               s1 = (if freq_use \<noteq> native then resample_series s0 freq_use method else s0);
               s2 = apply_period_filter to_datetime s1 dfrom dto;
               method_text = (if method = ''avg'' then txt_avg else txt_eop);
               col2 = (if unit \<noteq> [] then name @ '' ('' @ method_text @ '', '' @ unit @ '')''
                       else name @ '' ('' @ method_text @ '')'');
               rows = map (\<lambda>e. [format_date (fst e), round_val (snd e)]) s2
           in ([hdr_date, col2], rows, length rows, native))"

definition build_series ::
  "(string \<Rightarrow> parsed) \<Rightarrow> frame \<Rightarrow> string \<Rightarrow> string \<Rightarrow> string option \<Rightarrow> string option
     \<Rightarrow> string list \<times> rat option list \<times> (string \<times> string) list" where
  "build_series to_datetime df alias freq_view dfrom dto =
     (let sub = select_alias df alias
      in if sub = [] then ([], [], [(''native'', ''M'')])
         else
           let native = Freq (hd sub);
               freq_use =
                 (case NATIVE_FREQ_LOCK alias of
                    Some locked \<Rightarrow>
                      if locked \<noteq> [] then locked
                      else if freq_view = ''AUTO'' then native else freq_view
                  | None \<Rightarrow> if freq_view = ''AUTO'' then native else freq_view);
               (name, unit, method) = alias_unit_method df alias;
               s0 = sort_key fst (map (\<lambda>r. (Date r, Value r)) sub);
               s1 = (if freq_use \<noteq> native then resample_series s0 freq_use method else s0);
               s2 = apply_period_filter to_datetime s1 dfrom dto
           in (map (\<lambda>e. iso_date (fst e)) s2, map snd s2,
               [(''native'', native), (''freq_used'', freq_use), (''name'', name),
                (''unit'', unit), (''method'', method)]))"

section \<open>Loading and normalising the sheet\<close>

datatype error = FileNotFoundError | ValueError | PandasError

text \<open>
  A cell of the \<^verbatim>\<open>Freq\<close> or \<^verbatim>\<open>Method\<close> column as read from the sheet: empty
  (\<open>NaN\<close>) or a value with its text. \<^verbatim>\<open>astype(str)\<close> turns the empty cell into the
  text \<^verbatim>\<open>nan\<close>. Case mapping and trimming are those of ASCII text: \<^verbatim>\<open>upper\<close> and
  \<^verbatim>\<open>lower\<close> change the 26 letters, \<^verbatim>\<open>strip\<close> removes the ASCII white space of
  \<^verbatim>\<open>str.isspace\<close> from both ends.
\<close>

datatype cell = NaN | Str string

fun astype_str :: "cell \<Rightarrow> string" where
  "astype_str NaN = ''nan''"
| "astype_str (Str t) = t"

definition upper_char :: "char \<Rightarrow> char" where
  "upper_char c =
     (let n = (of_char c :: nat) in if 97 \<le> n \<and> n \<le> 122 then char_of (n - 32) else c)"

definition lower_char :: "char \<Rightarrow> char" where
  "lower_char c =
     (let n = (of_char c :: nat) in if 65 \<le> n \<and> n \<le> 90 then char_of (n + 32) else c)"

definition str_upper :: "string \<Rightarrow> string" where
  "str_upper t = map upper_char t"

definition str_lower :: "string \<Rightarrow> string" where
  "str_lower t = map lower_char t"

definition is_space :: "char \<Rightarrow> bool" where
  "is_space c = (let n = (of_char c :: nat) in (9 \<le> n \<and> n \<le> 13) \<or> (28 \<le> n \<and> n \<le> 32))"

definition str_strip :: "string \<Rightarrow> string" where
  "str_strip t = rev (dropWhile is_space (rev (dropWhile is_space t)))"

definition freq_codes :: "(string \<times> string) list" where
  "freq_codes = [(''M'', ''M''), (''Q'', ''Q''), (''A'', ''A''), (''A-DEC'', ''A'')]"

definition method_codes :: "(string \<times> string) list" where
  "method_codes =
     [(''avg'', ''avg''), (''average'', ''avg''), (''mean'', ''avg''),
      (''eop'', ''eop''), (''end'', ''eop''), (''last'', ''eop'')]"

text \<open>
  \<^verbatim>\<open>.astype(str).str.upper().str.strip().map({...}).fillna("M")\<close> on one cell, and
  the same chain with \<^verbatim>\<open>lower\<close> for the method.
\<close>

definition norm_freq :: "cell \<Rightarrow> string" where
  "norm_freq c =
     (case map_of freq_codes (str_strip (str_upper (astype_str c))) of
        None \<Rightarrow> ''M'' | Some f \<Rightarrow> f)"

definition norm_method :: "cell \<Rightarrow> string" where
  "norm_method c =
     (case map_of method_codes (str_strip (str_lower (astype_str c))) of
        None \<Rightarrow> ''avg'' | Some m \<Rightarrow> m)"

text \<open>
  A row of the sheet once the columns are renamed, the required columns checked, the
  alias defaulted and the dates parsed; \<open>raw_Freq\<close> and \<open>raw_Method\<close> are still the
  cells of the sheet.
\<close>

record raw_row =
  raw_Date :: date
  raw_Name :: string
  raw_Alias :: string
  raw_Value :: "rat option"
  raw_Unit :: "string option"
  raw_Freq :: cell
  raw_Method :: cell

definition normalise :: "raw_row \<Rightarrow> row" where
  "normalise r =
     \<lparr>Date = raw_Date r, Name = raw_Name r, Alias = raw_Alias r, Value = raw_Value r,
      Unit = raw_Unit r, Freq = norm_freq (raw_Freq r), Method = norm_method (raw_Method r)\<rparr>"

text \<open>
  The data file: its modification time, and what reading it gives up to the date
  conversion of \<^verbatim>\<open>_read_excel\<close> (an exception of the reader, of the column check or of
  the date parser, or the rows). No file at the path is \<open>None\<close>.
\<close>

record data_file =
  file_mtime :: rat
  file_sheet :: "error + raw_row list"

definition read_excel :: "data_file option \<Rightarrow> error + frame" where
  "read_excel fs =
     (case fs of
        None \<Rightarrow> Inl FileNotFoundError
      | Some f \<Rightarrow>
          (case file_sheet f of
             Inl e \<Rightarrow> Inl e
           | Inr raws \<Rightarrow> Inr (sort_key (\<lambda>r. (Alias r, Date r)) (map normalise raws))))"

section \<open>The dataset cache\<close>

text \<open>
  \<^verbatim>\<open>DataCache\<close> of \<^verbatim>\<open>app.py\<close>: the state is the cached modification time and the
  cached frame. \<open>get_df\<close> returns the result (an exception or the copy of the frame),
  the new state, and the number of calls of \<^verbatim>\<open>_read_excel\<close> it made. \<open>reload\<close> is the
  body of the \<^verbatim>\<open>if\<close>: the two assignments happen only when the read returns.
\<close>

record cache =
  cache_mtime :: rat
  cache_df :: "frame option"

definition init_cache :: cache where
  "init_cache = \<lparr>cache_mtime = 0, cache_df = None\<rparr>"

definition reload :: "data_file option \<Rightarrow> data_file \<Rightarrow> cache \<Rightarrow> (error + frame) \<times> cache \<times> nat" where
  "reload fs f c =
     (case read_excel fs of
        Inl e \<Rightarrow> (Inl e, c, 1)
      | Inr d \<Rightarrow> (Inr d, \<lparr>cache_mtime = file_mtime f, cache_df = Some d\<rparr>, 1))"

definition get_df :: "data_file option \<Rightarrow> cache \<Rightarrow> (error + frame) \<times> cache \<times> nat" where
  "get_df fs c =
     (case fs of
        None \<Rightarrow> (Inl FileNotFoundError, c, 0)
      | Some f \<Rightarrow>
          (case cache_df c of
             None \<Rightarrow> reload fs f c
           | Some d \<Rightarrow>
               if file_mtime f \<noteq> cache_mtime c then reload fs f c else (Inr d, c, 0)))"

text \<open>
  \<^verbatim>\<open>DataCache\<close> of \<^verbatim>\<open>utils/data_loader.py\<close>, over any frame type: \<open>ext\<close> is the lower-cased
  extension of the path, \<open>src_frame\<close> what the reader and the date conversion give.
\<close>

record 'd source_file =
  src_mtime :: rat
  src_frame :: "error + 'd"

record 'd loader_cache =
  last_mtime :: "rat option"
  loader_df :: "'d option"

definition load :: "string \<Rightarrow> 'd source_file \<Rightarrow> error + 'd" where
  "load ext f =
     (if ext = ''.xlsx'' then src_frame f
      else if ext = ''.csv'' then src_frame f
      else Inl ValueError)"

definition loader_reload ::
  "string \<Rightarrow> 'd source_file \<Rightarrow> 'd loader_cache \<Rightarrow> (error + 'd) \<times> 'd loader_cache \<times> nat" where
  "loader_reload ext f c =
     (case load ext f of
        Inl e \<Rightarrow> (Inl e, c, 1)
      | Inr d \<Rightarrow> (Inr d, \<lparr>last_mtime = Some (src_mtime f), loader_df = Some d\<rparr>, 1))"

definition loader_get_df ::
  "string \<Rightarrow> 'd source_file option \<Rightarrow> 'd loader_cache \<Rightarrow> (error + 'd) \<times> 'd loader_cache \<times> nat" where
  "loader_get_df ext fs c =
     (case fs of
        None \<Rightarrow> (Inl FileNotFoundError, c, 0)
      | Some f \<Rightarrow>
          (case loader_df c of
             None \<Rightarrow> loader_reload ext f c
           | Some d \<Rightarrow>
               if last_mtime c = None \<or> Some (src_mtime f) \<noteq> last_mtime c
               then loader_reload ext f c
               else (Inr d, c, 0)))"

section \<open>Notions used to state the properties\<close>

text \<open>
  The frequency a builder works at, and the series it has after the aggregation step
  (before the date filter), named so that the properties can speak about them.
\<close>

definition effective_freq :: "string \<Rightarrow> string \<Rightarrow> string \<Rightarrow> string" where
  "effective_freq alias native freq_view =
     (case NATIVE_FREQ_LOCK alias of
        Some locked \<Rightarrow> locked
      | None \<Rightarrow> if freq_view = ''AUTO'' then native else freq_view)"

definition rule_of :: "string \<Rightarrow> offset" where
  "rule_of freq = (case FREQ_RULE freq of Some r \<Rightarrow> r | None \<Rightarrow> MonthEnd)"

definition unit_of :: "frame \<Rightarrow> string \<Rightarrow> string" where
  "unit_of df alias =
     (case List.map_filter Unit (select_alias df alias) of [] \<Rightarrow> [] | u # _ \<Rightarrow> u)"

definition method_of :: "frame \<Rightarrow> string \<Rightarrow> string" where
  "method_of df alias = Method (hd (select_alias df alias))"

definition base_series :: "frame \<Rightarrow> string \<Rightarrow> series" where
  "base_series df alias = sort_key fst (map (\<lambda>r. (Date r, Value r)) (select_alias df alias))"

definition aggregated :: "frame \<Rightarrow> string \<Rightarrow> string \<Rightarrow> series" where
  "aggregated df alias freq_view =
     (let native = native_freq df alias;
          freq_use = effective_freq alias native freq_view
      in if freq_use \<noteq> native
         then resample_series (base_series df alias) freq_use (method_of df alias)
         else base_series df alias)"

definition rule_used :: "frame \<Rightarrow> string \<Rightarrow> string \<Rightarrow> offset" where
  "rule_used df alias freq_view = rule_of (effective_freq alias (native_freq df alias) freq_view)"

definition meta_of :: "frame \<Rightarrow> string \<Rightarrow> string \<Rightarrow> (string \<times> string) list" where
  "meta_of df alias freq_view =
     [(''native'', native_freq df alias),
      (''freq_used'', effective_freq alias (native_freq df alias) freq_view),
      (''name'', alias), (''unit'', unit_of df alias), (''method'', method_of df alias)]"

definition header_of :: "frame \<Rightarrow> string \<Rightarrow> string" where
  "header_of df alias =
     alias @ '' ('' @ (if method_of df alias = ''avg'' then txt_avg else txt_eop) @
     (if unit_of df alias \<noteq> [] then '', '' @ unit_of df alias else []) @ '')''"

definition table_row :: "date \<times> rat option \<Rightarrow> string list" where
  "table_row e = [format_date (fst e), round_val (snd e)]"


text \<open>
  \<open>v\<close> is the value of the chronologically last non-missing observation of the period
  labelled \<open>label\<close>, or missing when the period has none.
\<close>

definition last_observed :: "frame \<Rightarrow> offset \<Rightarrow> date \<Rightarrow> rat option \<Rightarrow> bool" where
  "last_observed sub rule label v =
     (case v of
        None \<Rightarrow> list_all (\<lambda>r. \<not> within_period rule label (Date r) \<or> Value r = None) sub
      | Some x \<Rightarrow>
          list_ex (\<lambda>r. within_period rule label (Date r) \<and> Value r = Some x \<and>
                        list_all (\<lambda>r'. \<not> within_period rule label (Date r') \<or> Value r' = None
                                        \<or> Date r' \<le> Date r) sub) sub)"



text \<open>
  The labels of the periods from the one holding the earliest date of the rows to the
  one holding the latest.
\<close>

definition period_labels :: "frame \<Rightarrow> offset \<Rightarrow> date list" where
  "period_labels sub rule =
     map (period_end rule)
       [period_index rule (Min (Date ` set sub)) ..< Suc (period_index rule (Max (Date ` set sub)))]"



text \<open>
  The period labels a builder reports for an alias at a requested view frequency, and
  the mean of the alias's observations within the period of one label.
\<close>

definition view_labels :: "frame \<Rightarrow> string \<Rightarrow> string \<Rightarrow> date list" where
  "view_labels df alias freq_view =
     period_labels (select_alias df alias) (rule_used df alias freq_view)"


definition period_last :: "frame \<Rightarrow> string \<Rightarrow> string \<Rightarrow> date \<Rightarrow> rat option \<Rightarrow> bool" where
  "period_last df alias freq_view label v =
     last_observed (select_alias df alias) (rule_used df alias freq_view) label v"

section \<open>Sample data\<close>

text \<open>
  Small frames, a sheet, two files, a cache state and a date parser on which the
  properties below are evaluated. \<open>ex_to_datetime\<close> knows two ISO dates and rejects every
  other string.
\<close>

definition ex_usd :: frame where
  "ex_usd =
     [\<lparr>Date = (2024, 1, 15), Name = ''US dollar rate'', Alias = ''USD/RUB'', Value = Some 90,
       Unit = Some ''rub'', Freq = ''M'', Method = ''avg''\<rparr>,
      \<lparr>Date = (2024, 2, 15), Name = ''US dollar rate'', Alias = ''USD/RUB'', Value = Some 92,
       Unit = Some ''rub'', Freq = ''M'', Method = ''avg''\<rparr>]"

definition ex_key :: frame where
  "ex_key =
     [\<lparr>Date = (2024, 1, 31), Name = ''Key rate'', Alias = ''KEY'', Value = Some 16,
       Unit = None, Freq = ''M'', Method = ''eop''\<rparr>,
      \<lparr>Date = (2024, 2, 29), Name = ''Key rate'', Alias = ''KEY'', Value = Some 15,
       Unit = None, Freq = ''M'', Method = ''eop''\<rparr>,
      \<lparr>Date = (2024, 3, 31), Name = ''Key rate'', Alias = ''KEY'', Value = None,
       Unit = None, Freq = ''M'', Method = ''eop''\<rparr>]"

definition ex_to_datetime :: "string \<Rightarrow> parsed" where
  "ex_to_datetime t =
     (if t = ''2024-02-01'' then Naive (2024, 2, 1)
      else if t = ''2024-12-31'' then Naive (2024, 12, 31)
      else Raises)"


definition ex_raws :: "raw_row list" where
  "ex_raws =
     [\<lparr>raw_Date = (2024, 3, 31), raw_Name = ''GDP'', raw_Alias = ''GDP'', raw_Value = Some 3,
       raw_Unit = None, raw_Freq = Str '' a-dec '', raw_Method = Str ''Last''\<rparr>,
      \<lparr>raw_Date = (2024, 1, 31), raw_Name = ''CPI'', raw_Alias = ''CPI'', raw_Value = None,
       raw_Unit = None, raw_Freq = NaN, raw_Method = Str ''median''\<rparr>]"

definition ex_file :: data_file where
  "ex_file = \<lparr>file_mtime = 1700000000, file_sheet = Inr ex_raws\<rparr>"

definition ex_bad_file :: data_file where
  "ex_bad_file = \<lparr>file_mtime = 1700000500, file_sheet = Inl ValueError\<rparr>"

definition ex_cache :: cache where
  "ex_cache = \<lparr>cache_mtime = 1700000000, cache_df = Some ex_usd\<rparr>"

section \<open>Auxiliary facts\<close>

lemma lock_nonempty: "NATIVE_FREQ_LOCK alias = Some locked \<Longrightarrow> locked \<noteq> []"
  by (auto simp add: NATIVE_FREQ_LOCK_def split: if_splits)

lemma freq_use_eq:
  "(case NATIVE_FREQ_LOCK alias of
      Some locked \<Rightarrow>
        if locked \<noteq> [] then locked
        else if freq_view = ''AUTO'' then native else freq_view
    | None \<Rightarrow> if freq_view = ''AUTO'' then native else freq_view)
   = effective_freq alias native freq_view"
  by (auto simp add: effective_freq_def dest: lock_nonempty split: option.splits)

lemma hd_select_alias: "select_alias df alias \<noteq> [] \<Longrightarrow> Alias (hd (select_alias df alias)) = alias"
proof -
  assume ne: "select_alias df alias \<noteq> []"
  then have "hd (select_alias df alias) \<in> set (select_alias df alias)" by simp
  then show ?thesis by (simp add: select_alias_def)
qed

lemma alias_unit_method_eq:
  "select_alias df alias \<noteq> [] \<Longrightarrow>
   alias_unit_method df alias = (alias, unit_of df alias, method_of df alias)"
  by (simp add: alias_unit_method_def unit_of_def method_of_def hd_select_alias Let_def)

lemma native_freq_eq:
  "select_alias df alias \<noteq> [] \<Longrightarrow> Freq (hd (select_alias df alias)) = native_freq df alias"
  by (simp add: native_freq_def)

lemma build_series_eq:
  assumes "select_alias df alias \<noteq> []"
  shows "build_series pdt df alias freq_view dfrom dto =
    (map (\<lambda>e. iso_date (fst e)) (apply_period_filter pdt (aggregated df alias freq_view) dfrom dto),
     map snd (apply_period_filter pdt (aggregated df alias freq_view) dfrom dto),
     meta_of df alias freq_view)"
  unfolding build_series_def freq_use_eq
  using assms
  by (simp add: Let_def alias_unit_method_eq native_freq_eq aggregated_def base_series_def meta_of_def)

lemma build_table_eq:
  assumes "select_alias df alias \<noteq> []"
  shows "build_table pdt df alias freq_view dfrom dto =
    ([hdr_date, header_of df alias],
     map table_row (apply_period_filter pdt (aggregated df alias freq_view) dfrom dto),
     length (apply_period_filter pdt (aggregated df alias freq_view) dfrom dto),
     native_freq df alias)"
  unfolding build_table_def freq_use_eq
  using assms
  by (simp add: Let_def alias_unit_method_eq native_freq_eq aggregated_def base_series_def
      header_of_def table_row_def)

lemma select_alias_empty: "\<forall>r\<in>set df. Alias r \<noteq> alias \<Longrightarrow> select_alias df alias = []"
  by (simp add: select_alias_def)






lemma get_df_again:
  assumes "get_df (Some f) c = (Inr d, c', n)"
  shows "get_df (Some f) c' = (Inr d, c', 0)"
proof (cases "cache_df c = None \<or> file_mtime f \<noteq> cache_mtime c")
  case True
  then have "get_df (Some f) c = reload (Some f) f c"
    by (auto simp add: get_df_def split: option.splits)
  with assms have "reload (Some f) f c = (Inr d, c', n)" by simp
  then have "c' = \<lparr>cache_mtime = file_mtime f, cache_df = Some d\<rparr>"
    by (auto simp add: reload_def split: sum.splits)
  then show ?thesis by (simp add: get_df_def)
next
  case False
  then obtain d0 where c: "cache_df c = Some d0" "file_mtime f = cache_mtime c" by auto
  with assms have "d = d0" "c' = c" by (simp_all add: get_df_def)
  with c show ?thesis by (simp add: get_df_def)
qed

lemma loader_get_df_again:
  assumes "loader_get_df ext (Some g) k = (Inr d, k', n)"
  shows "loader_get_df ext (Some g) k' = (Inr d, k', 0)"
proof (cases "loader_df k = None \<or> last_mtime k \<noteq> Some (src_mtime g)")
  case True
  then have "loader_get_df ext (Some g) k = loader_reload ext g k"
    by (auto simp add: loader_get_df_def split: option.splits)
  with assms have "loader_reload ext g k = (Inr d, k', n)" by simp
  then have "k' = \<lparr>last_mtime = Some (src_mtime g), loader_df = Some d\<rparr>"
    by (auto simp add: loader_reload_def split: sum.splits)
  then show ?thesis by (simp add: loader_get_df_def)
next
  case False
  then obtain d0 where c: "loader_df k = Some d0" "last_mtime k = Some (src_mtime g)" by auto
  with assms have "d = d0" "k' = k" by (simp_all add: loader_get_df_def)
  with c show ?thesis by (simp add: loader_get_df_def)
qed







lemma date_le_iff:
  "((y::nat, m::nat, d::nat) \<le> (y', m', d')) = (y < y' \<or> (y = y' \<and> (m < m' \<or> (m = m' \<and> d \<le> d'))))"
  by (auto simp add: less_eq_prod_def less_prod_def)

lemma days_in_month_le: "days_in_month y m \<le> 31"
  by (simp add: days_in_month_def)

lemma period_index_of_bounds:
  assumes "period_start r (period_end r p) \<le> d" and "d \<le> period_end r p"
  shows "period_index r d = p"
proof -
  obtain y m dd where d: "d = (y, m, dd)" by (cases d) auto
  show ?thesis
  proof (cases r)
    case MonthEnd
    from assms have "y = p div 12" "m = p mod 12 + 1"
      unfolding d MonthEnd by (auto simp add: date_le_iff)
    then show ?thesis unfolding d MonthEnd by simp
  next
    case QuarterEnd
    from assms have y: "y = p div 4" and m: "3 * (p mod 4) + 1 \<le> m" "m \<le> 3 * (p mod 4) + 3"
      unfolding d QuarterEnd by (auto simp add: date_le_iff)
    from m have "(m - 1) div 3 = p mod 4" by arith
    with y show ?thesis unfolding d QuarterEnd by simp
  next
    case YearEnd
    from assms show ?thesis unfolding d YearEnd by (auto simp add: date_le_iff)
  qed
qed

lemma bounds_of_period_index:
  assumes "valid_date d"
  shows "period_start r (period_end r (period_index r d)) \<le> d \<and> d \<le> period_end r (period_index r d)"
proof -
  obtain y m dd where d: "d = (y, m, dd)" by (cases d) auto
  from assms d have v: "1 \<le> m" "m \<le> 12" "1 \<le> dd" "dd \<le> days_in_month y m" by auto
  from v obtain k where k: "m = Suc k" "k < 12" by (cases m) auto
  show ?thesis
  proof (cases r)
    case MonthEnd
    from k have "(y * 12 + k) div 12 = y" "(y * 12 + k) mod 12 = k" by simp_all
    with v k show ?thesis unfolding d MonthEnd by (simp add: date_le_iff)
  next
    case QuarterEnd
    from k have k3: "k div 3 < 4" by arith
    then have q: "(y * 4 + k div 3) div 4 = y" "(y * 4 + k div 3) mod 4 = k div 3"
      by simp_all
    have b: "3 * (k div 3) \<le> k" "k \<le> 3 * (k div 3) + 2" by arith+
    define q where "q = k div 3"
    have lo: "(y, 3 * q + 3 - 2, 1) \<le> (y, m, dd)"
      using b v k unfolding q_def by (simp add: date_le_iff)
    have hi: "(y, m, dd) \<le> (y, 3 * q + 3, days_in_month y (3 * q + 3))"
    proof (cases "m = 3 * q + 3")
      case True
      with v show ?thesis by (simp add: date_le_iff)
    next
      case False
      with b k have "m < 3 * q + 3" unfolding q_def by arith
      then show ?thesis by (simp add: date_le_iff)
    qed
    from lo hi show ?thesis unfolding d QuarterEnd using k by (simp add: q q_def)
  next
    case YearEnd
    from v days_in_month_le[of y m] show ?thesis unfolding d YearEnd by (auto simp add: date_le_iff)
  qed
qed

lemma period_bounds:
  assumes "valid_date d"
  shows "(period_index r d = p) = within_period r (period_end r p) d"
  unfolding within_period_def
  using bounds_of_period_index[OF assms, of r] period_index_of_bounds[of r p d] by auto






lemma sorted_hd_Min: "sorted xs \<Longrightarrow> xs \<noteq> [] \<Longrightarrow> hd xs = Min (set xs)"
  by (cases xs) (auto intro!: Min_eqI[symmetric])

lemma sorted_last_Max: "sorted xs \<Longrightarrow> xs \<noteq> [] \<Longrightarrow> last xs = Max (set xs)"
proof (induction xs)
  case Nil
  then show ?case by simp
next
  case (Cons a xs)
  show ?case
  proof (cases "xs = []")
    case True
    then show ?thesis by simp
  next
    case False
    with Cons have "last xs = Max (set xs)" by simp
    moreover from Cons.prems have "\<forall>x\<in>set xs. a \<le> x" by simp
    ultimately show ?thesis using False
      by (auto simp add: max_def intro: order_trans dest: Max_ge[OF finite_set, of _ xs] )
  qed
qed

lemma base_series_ends:
  assumes "select_alias df alias \<noteq> []"
  shows "fst (hd (base_series df alias)) = Min (Date ` set (select_alias df alias))"
    and "fst (last (base_series df alias)) = Max (Date ` set (select_alias df alias))"
    and "base_series df alias \<noteq> []"
proof -
  let ?s = "base_series df alias"
  have ne: "?s \<noteq> []" using assms
    by (metis base_series_def length_sort length_map length_0_conv)
  have srt: "sorted (map fst ?s)" by (simp add: base_series_def)
  have st: "set (map fst ?s) = Date ` set (select_alias df alias)"
    by (force simp add: base_series_def)
  from ne have "fst (hd ?s) = hd (map fst ?s)" "fst (last ?s) = last (map fst ?s)"
    by (simp_all add: hd_map last_map)
  with sorted_hd_Min[OF srt] sorted_last_Max[OF srt] ne st
  show "fst (hd ?s) = Min (Date ` set (select_alias df alias))"
    and "fst (last ?s) = Max (Date ` set (select_alias df alias))" by simp_all
  show "?s \<noteq> []" by (rule ne)
qed


lemma apply_period_filter_none: "apply_period_filter pdt s None None = s"
  by (simp add: apply_period_filter_def filter_from_def filter_to_def)

lemma aggregated_resampled:
  assumes "effective_freq alias (native_freq df alias) freq_view \<noteq> native_freq df alias"
  shows "aggregated df alias freq_view =
         resample (rule_of (effective_freq alias (native_freq df alias) freq_view))
           (if method_of df alias = ''eop'' then agg_last else agg_mean) (base_series df alias)"
  using assms by (simp add: aggregated_def resample_series_def rule_of_def Let_def)

lemma present_empty: "present (map snd xs) = [] \<Longrightarrow> \<forall>e\<in>set xs. snd e = None"
proof (induction xs)
  case Nil
  then show ?case by simp
next
  case (Cons a xs)
  then show ?case by (cases "snd a") (auto simp add: present_def)
qed

lemma last_present:
  "sorted (map fst xs) \<Longrightarrow> present (map snd xs) \<noteq> [] \<Longrightarrow>
   \<exists>e\<in>set xs. snd e = Some (last (present (map snd xs))) \<and>
              (\<forall>e'\<in>set xs. snd e' \<noteq> None \<longrightarrow> fst e' \<le> fst e)"
proof (induction xs)
  case Nil
  then show ?case by (simp add: present_def)
next
  case (Cons a xs)
  show ?case
  proof (cases "present (map snd xs) = []")
    case True
    from present_empty[OF True] have none: "\<forall>e\<in>set xs. snd e = None" .
    from True Cons.prems(2) obtain x where x: "snd a = Some x"
      by (cases "snd a") (auto simp add: present_def)
    with True have "last (present (map snd (a # xs))) = x" by (simp add: present_def)
    with x none show ?thesis by auto
  next
    case False
    from Cons.prems(1) have srt: "sorted (map fst xs)" and lo: "\<forall>e\<in>set xs. fst a \<le> fst e"
      by simp_all
    from Cons.IH[OF srt False] obtain e where e: "e \<in> set xs"
      "snd e = Some (last (present (map snd xs)))"
      "\<forall>e'\<in>set xs. snd e' \<noteq> None \<longrightarrow> fst e' \<le> fst e" by blast
    have l: "last (present (map snd (a # xs))) = last (present (map snd xs))"
      using False by (cases "snd a") (simp_all add: present_def)
    from e lo show ?thesis unfolding l by auto
  qed
qed

lemma agg_last_bin:
  assumes valid: "\<forall>r\<in>set sub. valid_date (Date r)"
  shows "last_observed sub rule (period_end rule p)
           (agg_last (map snd (filter (\<lambda>e. period_index rule (fst e) = p)
                                 (sort_key fst (map (\<lambda>r. (Date r, Value r)) sub)))))"
proof -
  let ?s = "sort_key fst (map (\<lambda>r. (Date r, Value r)) sub)"
  let ?xs = "filter (\<lambda>e. period_index rule (fst e) = p) ?s"
  let ?lab = "period_end rule p"
  have srt: "sorted (map fst ?xs)" by (simp add: sorted_filter)
  have mem: "(Date r, Value r) \<in> set ?xs" if "r \<in> set sub" "within_period rule ?lab (Date r)" for r
    using that valid period_bounds[of "Date r" rule p] by auto
  have bk: "\<exists>r\<in>set sub. e = (Date r, Value r) \<and> within_period rule ?lab (Date r)"
    if "e \<in> set ?xs" for e
  proof -
    from that obtain r where r: "r \<in> set sub" "e = (Date r, Value r)"
      "period_index rule (Date r) = p" by auto
    from valid r(1) have "valid_date (Date r)" by simp
    from period_bounds[OF this, of rule p] r(3) have "within_period rule ?lab (Date r)" by simp
    with r show ?thesis by blast
  qed
  show ?thesis
  proof (cases "present (map snd ?xs) = []")
    case True
    from present_empty[OF True] mem have "\<forall>r\<in>set sub. within_period rule ?lab (Date r) \<longrightarrow> Value r = None"
      by fastforce
    with True show ?thesis
      by (auto simp add: last_observed_def agg_last_def list_all_iff)
  next
    case False
    from last_present[OF srt False] obtain e where e: "e \<in> set ?xs"
      "snd e = Some (last (present (map snd ?xs)))"
      "\<forall>e'\<in>set ?xs. snd e' \<noteq> None \<longrightarrow> fst e' \<le> fst e" by blast
    from bk[OF e(1)] obtain r where r: "r \<in> set sub" "e = (Date r, Value r)"
      "within_period rule ?lab (Date r)" by blast
    have "Date r' \<le> Date r" if "r' \<in> set sub" "within_period rule ?lab (Date r')" "Value r' \<noteq> None" for r'
      using e(3) mem[OF that(1,2)] that(3) r(2) by fastforce
    then have mx: "\<forall>r'\<in>set sub. \<not> within_period rule ?lab (Date r') \<or> Value r' = None
                     \<or> Date r' \<le> Date r" by blast
    define x where "x = last (present (map snd ?xs))"
    have vr: "Value r = Some x" using e(2) r(2) by (simp add: x_def)
    have ag: "agg_last (map snd ?xs) = Some x"
      using False by (simp add: agg_last_def x_def Let_def)
    have "list_ex (\<lambda>r. within_period rule ?lab (Date r) \<and> Value r = Some x \<and>
                        list_all (\<lambda>r'. \<not> within_period rule ?lab (Date r') \<or> Value r' = None
                                        \<or> Date r' \<le> Date r) sub) sub"
      unfolding list_ex_iff list_all_iff using r(1,3) vr mx by blast
    then show ?thesis unfolding ag by (simp add: last_observed_def)
  qed
qed

section \<open>The sample data, evaluated\<close>

lemma no_lock_usd: "NATIVE_FREQ_LOCK ''USD/RUB'' = None"
  by (simp add: NATIVE_FREQ_LOCK_def lock_inflation_def lock_gdp_def)

lemma no_lock_key: "NATIVE_FREQ_LOCK ''KEY'' = None"
  by (simp add: NATIVE_FREQ_LOCK_def lock_inflation_def lock_gdp_def)

lemma ex_usd_select: "select_alias ex_usd ''USD/RUB'' = ex_usd"
  by (simp add: select_alias_def ex_usd_def)

lemma ex_key_select: "select_alias ex_key ''KEY'' = ex_key"
  by (simp add: select_alias_def ex_key_def)

lemma ex_usd_facts:
  "native_freq ex_usd ''USD/RUB'' = ''M''"
  "method_of ex_usd ''USD/RUB'' = ''avg''"
  "unit_of ex_usd ''USD/RUB'' = ''rub''"
  "effective_freq ''USD/RUB'' ''M'' ''Q'' = ''Q''"
  "effective_freq ''USD/RUB'' ''M'' ''AUTO'' = ''M''"
  "rule_used ex_usd ''USD/RUB'' ''Q'' = QuarterEnd"
  by (simp_all add: native_freq_def method_of_def unit_of_def effective_freq_def rule_used_def
      rule_of_def FREQ_RULE_def no_lock_usd ex_usd_select)
     (simp_all add: ex_usd_def)

lemma ex_key_facts:
  "native_freq ex_key ''KEY'' = ''M''"
  "method_of ex_key ''KEY'' = ''eop''"
  "unit_of ex_key ''KEY'' = []"
  "effective_freq ''KEY'' ''M'' ''Q'' = ''Q''"
  "rule_used ex_key ''KEY'' ''Q'' = QuarterEnd"
  by (simp_all add: native_freq_def method_of_def unit_of_def effective_freq_def rule_used_def
      rule_of_def FREQ_RULE_def no_lock_key ex_key_select)
     (simp_all add: ex_key_def)


lemma ex_key_valid: "\<forall>r\<in>set (select_alias ex_key ''KEY''). valid_date (Date r)"
  by (simp add: ex_key_select) (simp add: ex_key_def days_in_month_def is_leap_def)



lemma ex_format: "format_date (2024, 3, 31) = ''31.03.2024''" "iso_date (2024, 3, 31) = ''2024-03-31''"
  "round_val (Some 91) = ''91.0''"
  by code_simp+

lemma ex_usd_header: "header_of ex_usd ''USD/RUB'' = ''USD/RUB ('' @ txt_avg @ '', rub)''"
  by (simp add: header_of_def ex_usd_facts)


lemma ex_key_aggregated: "aggregated ex_key ''KEY'' ''Q'' = [((2024, 3, 31), Some 15)]"
  by (simp add: aggregated_def ex_key_facts base_series_def ex_key_select)
     (simp add: ex_key_def resample_series_def FREQ_RULE_def resample_def agg_last_def present_def
        days_in_month_def)

lemma ex_key_meta:
  "meta_of ex_key ''KEY'' ''Q'' =
     [(''native'', ''M''), (''freq_used'', ''Q''), (''name'', ''KEY''), (''unit'', []),
      (''method'', ''eop'')]"
  by (simp add: meta_of_def ex_key_facts)







section \<open>The properties\<close>

subsection \<open>Average resampling\<close>



subsection \<open>End-of-period resampling\<close>

text \<open>
  Claim C2. For an alias whose method is end of period, when the effective frequency
  differs from the native one, every entry of the resampled series carries the value of
  a non-missing observation of its period that no other non-missing observation of the
  period follows in date, or is missing when the period has no non-missing observation.
\<close>

theorem end_of_period_resampling_is_last_value:
  assumes valid: "\<forall>r\<in>set (select_alias df alias). valid_date (Date r)"
    and ne: "select_alias df alias \<noteq> []"
    and meth: "method_of df alias = ''eop''"
    and diff: "effective_freq alias (native_freq df alias) freq_view \<noteq> native_freq df alias"
  shows "map fst (aggregated df alias freq_view) = view_labels df alias freq_view
       \<and> (\<forall>e\<in>set (aggregated df alias freq_view). period_last df alias freq_view (fst e) (snd e))
       \<and> build_series pdt df alias freq_view None None =
           (map (\<lambda>e. iso_date (fst e)) (aggregated df alias freq_view),
            map snd (aggregated df alias freq_view), meta_of df alias freq_view)
       \<and> build_table pdt df alias freq_view None None =
           ([hdr_date, header_of df alias], map table_row (aggregated df alias freq_view),
            length (aggregated df alias freq_view), native_freq df alias)"
proof -
  have a: "aggregated df alias freq_view = resample (rule_of (effective_freq alias (native_freq df alias) freq_view)) agg_last (base_series df alias)"
    using meth by (simp add: aggregated_resampled[OF diff])
  have l: "map fst (aggregated df alias freq_view) = view_labels df alias freq_view"
    unfolding a using base_series_ends[OF ne]
    by (simp add: resample_def period_labels_def comp_def view_labels_def rule_used_def)
  have v: "\<forall>e\<in>set (aggregated df alias freq_view). period_last df alias freq_view (fst e) (snd e)"
    unfolding a using base_series_ends(3)[OF ne] agg_last_bin[OF valid]
    by (auto simp add: resample_def base_series_def period_last_def rule_used_def)
  from l v show ?thesis
    unfolding build_series_eq[OF ne] build_table_eq[OF ne] apply_period_filter_none by simp
qed

theorem end_of_period_resampling_witness:
  "list_all (\<lambda>r. valid_date (Date r)) (select_alias ex_key ''KEY'')
   \<and> select_alias ex_key ''KEY'' \<noteq> []
   \<and> method_of ex_key ''KEY'' = ''eop''
   \<and> effective_freq ''KEY'' (native_freq ex_key ''KEY'') ''Q'' \<noteq> native_freq ex_key ''KEY''
   \<and> view_labels ex_key ''KEY'' ''Q'' = [(2024, 3, 31)]
   \<and> period_last ex_key ''KEY'' ''Q'' (2024, 3, 31) (Some 15)
   \<and> build_series ex_to_datetime ex_key ''KEY'' ''Q'' None None =
       ([''2024-03-31''], [Some 15],
        [(''native'', ''M''), (''freq_used'', ''Q''), (''name'', ''KEY''), (''unit'', []),
         (''method'', ''eop'')])"
proof -
  have ne: "select_alias ex_key ''KEY'' \<noteq> []"
    unfolding ex_key_select by (simp add: ex_key_def)
  have meth: "method_of ex_key ''KEY'' = ''eop''" by (rule ex_key_facts)
  have diff: "effective_freq ''KEY'' (native_freq ex_key ''KEY'') ''Q'' \<noteq> native_freq ex_key ''KEY''"
    by (simp add: ex_key_facts)
  from end_of_period_resampling_is_last_value[OF ex_key_valid ne meth diff, of ex_to_datetime]
  show ?thesis
    using ne meth diff ex_key_valid
    by (simp add: ex_key_aggregated ex_format ex_key_meta list_all_iff
        del: format_date.simps iso_date.simps)
qed

subsection \<open>Frequency lock\<close>



subsection \<open>Cache hits and reloads\<close>

text \<open>
  Claim C4. With a dataset cached and the file's modification time equal to the cached
  one, \<open>get_df\<close> returns the cached dataset, leaves the cache as it is and does not
  call the reader. When the file can be stat'ed, the reader is called exactly when no
  dataset is cached or the time differs; a successful reload replaces both the cached
  dataset and the cached time, and a second call on the unchanged file then returns the
  same dataset without reading. The same holds for the cache of
  \<^verbatim>\<open>utils/data_loader.py\<close>.
\<close>

theorem cache_reload_policy:
  "(\<forall>f c d. cache_df c = Some d \<and> file_mtime f = cache_mtime c \<longrightarrow>
       get_df (Some f) c = (Inr d, c, 0))
 \<and> (\<forall>f c. snd (snd (get_df (Some f) c)) =
       (if cache_df c = None \<or> file_mtime f \<noteq> cache_mtime c then 1 else 0))
 \<and> (\<forall>f c d'. (cache_df c = None \<or> file_mtime f \<noteq> cache_mtime c) \<and> read_excel (Some f) = Inr d' \<longrightarrow>
       get_df (Some f) c = (Inr d', \<lparr>cache_mtime = file_mtime f, cache_df = Some d'\<rparr>, 1))
 \<and> (\<forall>f c d c' n. get_df (Some f) c = (Inr d, c', n) \<longrightarrow> get_df (Some f) c' = (Inr d, c', 0))
 \<and> (\<forall>ext (g :: 'd source_file) k d. loader_df k = Some d \<and> last_mtime k = Some (src_mtime g) \<longrightarrow>
       loader_get_df ext (Some g) k = (Inr d, k, 0))
 \<and> (\<forall>ext (g :: 'd source_file) k. snd (snd (loader_get_df ext (Some g) k)) =
       (if loader_df k = None \<or> last_mtime k \<noteq> Some (src_mtime g) then 1 else 0))
 \<and> (\<forall>ext (g :: 'd source_file) k d'.
       (loader_df k = None \<or> last_mtime k \<noteq> Some (src_mtime g)) \<and> load ext g = Inr d' \<longrightarrow>
       loader_get_df ext (Some g) k = (Inr d', \<lparr>last_mtime = Some (src_mtime g), loader_df = Some d'\<rparr>, 1))
 \<and> (\<forall>ext (g :: 'd source_file) k d k' n.
       loader_get_df ext (Some g) k = (Inr d, k', n) \<longrightarrow> loader_get_df ext (Some g) k' = (Inr d, k', 0))"
proof (intro conjI allI impI)
  fix f c d c' n
  assume "get_df (Some f) c = (Inr d, c', n)"
  then show "get_df (Some f) c' = (Inr d, c', 0)" by (rule get_df_again)
next
  fix ext and g :: "'d source_file" and k d k' n
  assume "loader_get_df ext (Some g) k = (Inr d, k', n)"
  then show "loader_get_df ext (Some g) k' = (Inr d, k', 0)" by (rule loader_get_df_again)
qed (auto simp add: get_df_def reload_def loader_get_df_def loader_reload_def
      split: option.splits sum.splits)

theorem cache_reload_witness:
  "cache_df ex_cache = Some ex_usd \<and> file_mtime ex_file = cache_mtime ex_cache
   \<and> get_df (Some ex_file) ex_cache = (Inr ex_usd, ex_cache, 0)
   \<and> snd (snd (get_df (Some ex_file) init_cache)) = 1
   \<and> snd (snd (get_df (Some ex_bad_file) ex_cache)) = 1
   \<and> loader_get_df ''.csv'' (Some \<lparr>src_mtime = 5, src_frame = Inr (7 :: nat)\<rparr>)
        \<lparr>last_mtime = Some 5, loader_df = Some 7\<rparr> =
       (Inr 7, \<lparr>last_mtime = Some 5, loader_df = Some 7\<rparr>, 0)
   \<and> loader_get_df ''.csv'' (Some \<lparr>src_mtime = 6, src_frame = Inr (8 :: nat)\<rparr>)
        \<lparr>last_mtime = Some 5, loader_df = Some 7\<rparr> =
       (Inr 8, \<lparr>last_mtime = Some 6, loader_df = Some 8\<rparr>, 1)"
proof -
  have h: "cache_df ex_cache = Some ex_usd" "file_mtime ex_file = cache_mtime ex_cache"
    "cache_df init_cache = None" "file_mtime ex_bad_file \<noteq> cache_mtime ex_cache"
    by (simp_all add: ex_cache_def ex_file_def init_cache_def ex_bad_file_def)
  note t = cache_reload_policy[where 'd = nat]
  note p1 = t[THEN conjunct1, rule_format]
  note p2 = t[THEN conjunct2, THEN conjunct1, rule_format]
  note p5 = t[THEN conjunct2, THEN conjunct2, THEN conjunct2, THEN conjunct2, THEN conjunct1,
      rule_format]
  note p7 = t[THEN conjunct2, THEN conjunct2, THEN conjunct2, THEN conjunct2, THEN conjunct2,
      THEN conjunct2, THEN conjunct1, rule_format]
  have c1: "get_df (Some ex_file) ex_cache = (Inr ex_usd, ex_cache, 0)"
    by (rule p1[OF conjI[OF h(1) h(2)]])
  have c2: "snd (snd (get_df (Some ex_file) init_cache)) = 1"
    unfolding p2 using h(3) by simp
  have c3: "snd (snd (get_df (Some ex_bad_file) ex_cache)) = 1"
    unfolding p2 using h(4) by simp
  let ?k = "\<lparr>last_mtime = Some 5, loader_df = Some (7 :: nat)\<rparr>"
  let ?g = "\<lparr>src_mtime = 5, src_frame = Inr (7 :: nat)\<rparr>"
  let ?g' = "\<lparr>src_mtime = 6, src_frame = Inr (8 :: nat)\<rparr>"
  have l: "loader_df ?k = Some 7 \<and> last_mtime ?k = Some (src_mtime ?g)" by simp
  have c4: "loader_get_df ''.csv'' (Some ?g) ?k = (Inr 7, ?k, 0)"
    by (rule p5[OF l])
  have l': "(loader_df ?k = None \<or> last_mtime ?k \<noteq> Some (src_mtime ?g')) \<and> load ''.csv'' ?g' = Inr 8"
    by (simp add: load_def)
  have c5: "loader_get_df ''.csv'' (Some ?g') ?k = (Inr 8, \<lparr>last_mtime = Some 6, loader_df = Some 8\<rparr>, 1)"
    using p7[OF l'] by simp
  from h(1,2) c1 c2 c3 c4 c5 show ?thesis by blast
qed

subsection \<open>Unknown alias\<close>

text \<open>
  Claim C5. For an alias that matches no row, \<open>build_table\<close> returns no rows, total 0
  and native frequency \<^verbatim>\<open>M\<close>, and \<open>build_series\<close> returns empty sequences with the
  metadata \<^verbatim>\<open>{native: M}\<close>.
\<close>

theorem unknown_alias_gives_empty_result:
  assumes "\<forall>r\<in>set df. Alias r \<noteq> alias"
  shows "build_table pdt df alias freq_view dfrom dto = ([hdr_date, alias], [], 0, ''M'')
       \<and> build_series pdt df alias freq_view dfrom dto = ([], [], [(''native'', ''M'')])"
  using select_alias_empty[OF assms]
  by (simp add: build_table_def build_series_def)

theorem unknown_alias_witness:
  "list_all (\<lambda>r. Alias r \<noteq> ''EUR/RUB'') ex_usd
   \<and> build_table ex_to_datetime ex_usd ''EUR/RUB'' ''Q'' (Some ''2024-02-01'') None =
       ([hdr_date, ''EUR/RUB''], [], 0, ''M'')
   \<and> build_series ex_to_datetime ex_usd ''EUR/RUB'' ''Q'' (Some ''2024-02-01'') None =
       ([], [], [(''native'', ''M'')])"
proof -
  have h: "\<forall>r\<in>set ex_usd. Alias r \<noteq> ''EUR/RUB''" by (simp add: ex_usd_def)
  from unknown_alias_gives_empty_result[OF h, of ex_to_datetime "''Q''" "Some ''2024-02-01''" None]
  show ?thesis using h by (simp add: list_all_iff)
qed

subsection \<open>Date range filter\<close>



subsection \<open>Absent and rejected bounds\<close>



subsection \<open>Normalised frequency and method\<close>



subsection \<open>The name in the header and the metadata\<close>

text \<open>
  Claim C9, as the code has it. For an alias with at least one row, the name embedded in
  the second column header of \<open>build_table\<close> and the \<^verbatim>\<open>name\<close> entry of the metadata of
  \<open>build_series\<close> are the alias itself. It is the display name of the rows only when the
  sheet has no alias column, or holds the same text in both columns.
\<close>

theorem header_and_name_are_the_alias:
  assumes "select_alias df alias \<noteq> []"
  shows "fst (build_table pdt df alias freq_view dfrom dto) = [hdr_date, header_of df alias]
       \<and> map_of (snd (snd (build_series pdt df alias freq_view dfrom dto))) ''name'' = Some alias"
  using assms by (simp add: build_table_eq build_series_eq meta_of_def)

theorem header_and_name_witness:
  "select_alias ex_usd ''USD/RUB'' \<noteq> []
   \<and> fst (build_table ex_to_datetime ex_usd ''USD/RUB'' ''AUTO'' None None) =
       [hdr_date, ''USD/RUB ('' @ txt_avg @ '', rub)'']
   \<and> map_of (snd (snd (build_series ex_to_datetime ex_usd ''USD/RUB'' ''AUTO'' None None))) ''name'' =
       Some ''USD/RUB''"
proof -
  have ne: "select_alias ex_usd ''USD/RUB'' \<noteq> []"
    unfolding ex_usd_select by (simp add: ex_usd_def)
  from header_and_name_are_the_alias[OF ne, of ex_to_datetime "''AUTO''" None None] ne
  show ?thesis by (simp add: ex_usd_header)
qed

text \<open>
  Claim C9 as stated fails on rows whose \<^verbatim>\<open>Name\<close> differs from their \<^verbatim>\<open>Alias\<close>: the header
  and the metadata carry \<^verbatim>\<open>USD/RUB\<close>, not the display name \<^verbatim>\<open>US dollar rate\<close>.
\<close>

theorem header_name_counterexample:
  "Name (hd (select_alias ex_usd ''USD/RUB'')) = ''US dollar rate''
   \<and> fst (build_table ex_to_datetime ex_usd ''USD/RUB'' ''AUTO'' None None) =
       [hdr_date, ''USD/RUB ('' @ txt_avg @ '', rub)'']
   \<and> fst (build_table ex_to_datetime ex_usd ''USD/RUB'' ''AUTO'' None None) \<noteq>
       [hdr_date, Name (hd (select_alias ex_usd ''USD/RUB'')) @ '' ('' @ txt_avg @ '', rub)'']
   \<and> map_of (snd (snd (build_series ex_to_datetime ex_usd ''USD/RUB'' ''AUTO'' None None))) ''name'' =
       Some ''USD/RUB''
   \<and> map_of (snd (snd (build_series ex_to_datetime ex_usd ''USD/RUB'' ''AUTO'' None None))) ''name'' \<noteq>
       Some (Name (hd (select_alias ex_usd ''USD/RUB'')))"
proof -
  have ne: "select_alias ex_usd ''USD/RUB'' \<noteq> []"
    unfolding ex_usd_select by (simp add: ex_usd_def)
  have n: "Name (hd (select_alias ex_usd ''USD/RUB'')) = ''US dollar rate''"
    unfolding ex_usd_select by (simp add: ex_usd_def)
  show ?thesis
    unfolding n by (simp add: build_table_eq[OF ne] build_series_eq[OF ne] ex_usd_header meta_of_def)
qed

subsection \<open>A failed reload\<close>

text \<open>
  Claim C10. When \<open>get_df\<close> has to reload and the read raises, the exception is the
  result and the cached dataset and time are those of before the call; a second call
  on the same file reads again.
\<close>

theorem failed_reload_keeps_cache:
  assumes "cache_df c = None \<or> file_mtime f \<noteq> cache_mtime c"
    and "read_excel (Some f) = Inl e"
  shows "get_df (Some f) c = (Inl e, c, 1)
       \<and> get_df (Some f) (fst (snd (get_df (Some f) c))) = (Inl e, c, 1)"
  using assms by (auto simp add: get_df_def reload_def split: option.splits)

theorem failed_reload_witness:
  "file_mtime ex_bad_file \<noteq> cache_mtime ex_cache
   \<and> read_excel (Some ex_bad_file) = Inl ValueError
   \<and> get_df (Some ex_bad_file) ex_cache = (Inl ValueError, ex_cache, 1)
   \<and> get_df (Some ex_bad_file) (fst (snd (get_df (Some ex_bad_file) ex_cache))) =
       (Inl ValueError, ex_cache, 1)"
proof -
  have h1: "file_mtime ex_bad_file \<noteq> cache_mtime ex_cache"
    by (simp add: ex_cache_def ex_bad_file_def)
  then have h: "cache_df ex_cache = None \<or> file_mtime ex_bad_file \<noteq> cache_mtime ex_cache" by simp
  have r: "read_excel (Some ex_bad_file) = Inl ValueError"
    by (simp add: read_excel_def ex_bad_file_def)
  from failed_reload_keeps_cache[OF h r] h1 r show ?thesis by blast
qed

end
